theory Spec2Isabelle
  imports Main
begin

section \<open>Katalog Buku API: the in-memory stores and the request handlers of main.py\<close>

subsection \<open>Python dictionaries with insertion order\<close>

text \<open>
  \<^verbatim>\<open>books\<close> and \<^verbatim>\<open>orders\<close> are Python dicts. A dict keeps its keys in insertion
  order; an assignment to a key that is present replaces the value and keeps the position,
  an assignment to a new key appends. The model is an association list.
\<close>

type_synonym ('k, 'v) dict = "('k \<times> 'v) list"

fun dict_get :: "('k, 'v) dict \<Rightarrow> 'k \<Rightarrow> 'v option" where
  "dict_get [] k = None"
| "dict_get ((k', v) # d) k = (if k' = k then Some v else dict_get d k)"

fun dict_set :: "('k, 'v) dict \<Rightarrow> 'k \<Rightarrow> 'v \<Rightarrow> ('k, 'v) dict" where
  "dict_set [] k v = [(k, v)]"
| "dict_set ((k', v') # d) k v =
     (if k' = k then (k, v) # d else (k', v') # dict_set d k v)"

definition dict_keys :: "('k, 'v) dict \<Rightarrow> 'k list" where
  "dict_keys d = map fst d"

definition dict_values :: "('k, 'v) dict \<Rightarrow> 'v list" where
  "dict_values d = map snd d"

subsection \<open>Records held in the two stores\<close>

text \<open>
  The dict literals of \<^verbatim>\<open>create_book\<close> and \<^verbatim>\<open>create_order\<close>, with their keys as
  fields (prefixed, since \<open>id\<close> is taken). Python integers are unbounded.
\<close>

record book =
  b_id :: string
  b_title :: string
  b_author :: string
  b_stock :: int

record order =
  o_id :: string
  o_book_id :: string
  o_qty :: int
  o_customer_name :: string
  o_status :: string

record state =
  books :: "(string, book) dict"
  orders :: "(string, order) dict"

definition init_state :: state where
  "init_state = \<lparr>books = [], orders = []\<rparr>"

subsection \<open>Request models\<close>

record BookCreate =
  title :: string
  author :: string
  stock :: int

record BookStockUpdate =
  set_stock :: "int option"
  delta :: "int option"

record OrderCreate =
  book_id :: string
  qty :: int
  customer_name :: string

text \<open>
  The \<^verbatim>\<open>Field\<close> constraints of the three models: \<^verbatim>\<open>min_length=1\<close>, \<^verbatim>\<open>ge=0\<close>,
  \<^verbatim>\<open>gt=0\<close>. An absent optional field is \<open>None\<close> and is not constrained.
\<close>

definition valid_BookCreate :: "BookCreate \<Rightarrow> bool" where
  "valid_BookCreate p = (1 \<le> length (title p) \<and> 1 \<le> length (author p) \<and> 0 \<le> stock p)"

definition valid_BookStockUpdate :: "BookStockUpdate \<Rightarrow> bool" where
  "valid_BookStockUpdate p = (case set_stock p of None \<Rightarrow> True | Some v \<Rightarrow> 0 \<le> v)"

definition valid_OrderCreate :: "OrderCreate \<Rightarrow> bool" where
  "valid_OrderCreate p = (0 < qty p \<and> 1 \<le> length (customer_name p))"

subsection \<open>Errors\<close>

text \<open>
  A handler raises \<^verbatim>\<open>HTTPException(status_code, detail)\<close>. A body that violates its
  model never reaches the handler: the framework answers it with status 422.
\<close>

datatype http_error = HTTPException int string | RequestValidationError

fun status_code :: "http_error \<Rightarrow> int" where
  "status_code (HTTPException c d) = c"
| "status_code RequestValidationError = 422"

subsection \<open>Books\<close>

text \<open>
  Every handler takes the state and returns its result with the state it leaves, so that
  a raise after a write would show. The argument \<open>uuid\<close> of the two creating handlers is
  the value of \<^verbatim>\<open>str(uuid4())\<close> in that call; the handlers do not look whether it is
  already a key. A stored record is never an empty dict, so \<^verbatim>\<open>if not book\<close> is the test
  for a missing key. Writing a field of a record fetched with \<^verbatim>\<open>get\<close> writes the record
  held in the store, under the key it was fetched with.
\<close>

definition create_book :: "state \<Rightarrow> string \<Rightarrow> BookCreate \<Rightarrow> (http_error + book) \<times> state" where
  "create_book st uuid payload =
     (let b = \<lparr>b_id = uuid, b_title = title payload, b_author = author payload,
               b_stock = stock payload\<rparr>
      in (Inr b, st\<lparr>books := dict_set (books st) uuid b\<rparr>))"

text \<open>
  A Python string is held as the list of its UTF-8 bytes. \<^verbatim>\<open>in\<close> on two strings is
  the substring test; on well-formed UTF-8 the test on bytes and the test on code points
  agree, since an occurrence of a well-formed text starts and ends at a character boundary.
  A string has no character exactly when it has no byte.
\<close>

fun startswith :: "string \<Rightarrow> string \<Rightarrow> bool" where
  "startswith s [] = True"
| "startswith [] (c # q) = False"
| "startswith (d # s) (c # q) = (d = c \<and> startswith s q)"

fun str_in :: "string \<Rightarrow> string \<Rightarrow> bool" where
  "str_in q [] = (q = [])"
| "str_in q (c # s) = (startswith (c # s) q \<or> str_in q s)"

record book_list =
  items :: "book list"
  count :: int

text \<open>
  \<^verbatim>\<open>str.lower\<close> belongs to the language, not to main.py: \<open>list_books\<close> takes it as the
  argument \<open>lower\<close>, and so do the functions that run a request.
\<close>

definition list_books :: "(string \<Rightarrow> string) \<Rightarrow> state \<Rightarrow> string option \<Rightarrow> book_list" where
  "list_books lower st q =
     (let data = dict_values (books st);
          data = (case q of
                    None \<Rightarrow> data
                  | Some qs \<Rightarrow>
                      if qs = [] then data
                      else (let q_lower = lower qs
                            in filter (\<lambda>b. str_in q_lower (lower (b_title b)) \<or>
                                           str_in q_lower (lower (b_author b))) data))
      in \<lparr>items = data, count = int (length data)\<rparr>)"

definition get_book :: "state \<Rightarrow> string \<Rightarrow> (http_error + book) \<times> state" where
  "get_book st bid =
     (case dict_get (books st) bid of
        None \<Rightarrow> (Inl (HTTPException 404 ''Buku tidak ditemukan''), st)
      | Some b \<Rightarrow> (Inr b, st))"

definition update_stock :: "state \<Rightarrow> string \<Rightarrow> BookStockUpdate \<Rightarrow> (http_error + book) \<times> state" where
  "update_stock st bid payload =
     (case dict_get (books st) bid of
        None \<Rightarrow> (Inl (HTTPException 404 ''Buku tidak ditemukan''), st)
      | Some b \<Rightarrow>
          (case (set_stock payload, delta payload) of
             (None, None) \<Rightarrow> (Inl (HTTPException 400 ''Isi set_stock atau delta''), st)
           | (Some v, Some dl) \<Rightarrow>
               (Inl (HTTPException 400 ''Pilih salah satu: set_stock atau delta''), st)
           | (Some v, None) \<Rightarrow>
               (let b' = b\<lparr>b_stock := v\<rparr>
                in (Inr b', st\<lparr>books := dict_set (books st) bid b'\<rparr>))
           | (None, Some dl) \<Rightarrow>
               (let new_stock = b_stock b + dl
                in if new_stock < 0
                   then (Inl (HTTPException 400 ''Stok tidak boleh negatif''), st)
                   else (let b' = b\<lparr>b_stock := new_stock\<rparr>
                         in (Inr b', st\<lparr>books := dict_set (books st) bid b'\<rparr>)))))"

subsection \<open>Orders\<close>

definition create_order :: "state \<Rightarrow> string \<Rightarrow> OrderCreate \<Rightarrow> (http_error + order) \<times> state" where
  "create_order st uuid payload =
     (case dict_get (books st) (book_id payload) of
        None \<Rightarrow> (Inl (HTTPException 404 ''Buku tidak ditemukan''), st)
      | Some b \<Rightarrow>
          (let ord = \<lparr>o_id = uuid, o_book_id = book_id payload, o_qty = qty payload,
                     o_customer_name = customer_name payload, o_status = ''pending''\<rparr>
           in (Inr ord, st\<lparr>orders := dict_set (orders st) uuid ord\<rparr>)))"

definition get_order :: "state \<Rightarrow> string \<Rightarrow> (http_error + order) \<times> state" where
  "get_order st oid =
     (case dict_get (orders st) oid of
        None \<Rightarrow> (Inl (HTTPException 404 ''Pesanan tidak ditemukan''), st)
      | Some ord \<Rightarrow> (Inr ord, st))"

record confirmation =
  message :: string
  conf_order :: order
  conf_book :: book

definition confirm_order :: "state \<Rightarrow> string \<Rightarrow> (http_error + confirmation) \<times> state" where
  "confirm_order st oid =
     (case dict_get (orders st) oid of
        None \<Rightarrow> (Inl (HTTPException 404 ''Pesanan tidak ditemukan''), st)
      | Some ord \<Rightarrow>
          if o_status ord \<noteq> ''pending''
          then (Inl (HTTPException 400 ''Pesanan sudah diproses / bukan pending''), st)
          else (case dict_get (books st) (o_book_id ord) of
                  None \<Rightarrow> (Inl (HTTPException 404 ''Buku pada pesanan tidak ditemukan''), st)
                | Some b \<Rightarrow>
                    if b_stock b < o_qty ord
                    then (Inl (HTTPException 400 ''Stok tidak mencukupi untuk konfirmasi''), st)
                    else (let b' = b\<lparr>b_stock := b_stock b - o_qty ord\<rparr>;
                              ord' = ord\<lparr>o_status := ''confirmed''\<rparr>
                          in (Inr \<lparr>message = ''Pesanan berhasil dikonfirmasi'',
                                   conf_order = ord', conf_book = b'\<rparr>,
                              st\<lparr>books := dict_set (books st) (o_book_id ord) b',
                                 orders := dict_set (orders st) oid ord'\<rparr>))))"

subsection \<open>The application: one request, then a sequence of requests\<close>

datatype request =
    PostBooks string BookCreate
  | GetBooks "string option"
  | GetBook string
  | PatchStock string BookStockUpdate
  | PostOrders string OrderCreate
  | GetOrder string
  | PostConfirm string

datatype response =
    RBook book
  | RBooks book_list
  | ROrder order
  | RConfirm confirmation

definition lift_result :: "('a \<Rightarrow> response) \<Rightarrow> (http_error + 'a) \<times> state \<Rightarrow> (http_error + response) \<times> state" where
  "lift_result f r = (case fst r of Inl e \<Rightarrow> (Inl e, snd r) | Inr x \<Rightarrow> (Inr (f x), snd r))"

text \<open>
  The string of \<open>PostBooks\<close> and \<open>PostOrders\<close> is the uuid drawn for that request; the
  string of the other requests is the path parameter. The body is validated against its
  model before the handler runs.
\<close>

fun app :: "(string \<Rightarrow> string) \<Rightarrow> state \<Rightarrow> request \<Rightarrow> (http_error + response) \<times> state" where
  "app lower st (PostBooks uuid p) =
     (if valid_BookCreate p then lift_result RBook (create_book st uuid p)
      else (Inl RequestValidationError, st))"
| "app lower st (GetBooks q) = (Inr (RBooks (list_books lower st q)), st)"
| "app lower st (GetBook bid) = lift_result RBook (get_book st bid)"
| "app lower st (PatchStock bid p) =
     (if valid_BookStockUpdate p then lift_result RBook (update_stock st bid p)
      else (Inl RequestValidationError, st))"
| "app lower st (PostOrders uuid p) =
     (if valid_OrderCreate p then lift_result ROrder (create_order st uuid p)
      else (Inl RequestValidationError, st))"
| "app lower st (GetOrder oid) = lift_result ROrder (get_order st oid)"
| "app lower st (PostConfirm oid) = lift_result RConfirm (confirm_order st oid)"

fun run :: "(string \<Rightarrow> string) \<Rightarrow> state \<Rightarrow> request list \<Rightarrow> state" where
  "run lower st [] = st"
| "run lower st (r # rs) = run lower (snd (app lower st r)) rs"

subsection \<open>Predicates on states and request sequences\<close>

text \<open>The invariant of the catalog: no book has a negative stock.\<close>

definition stock_nonneg :: "state \<Rightarrow> bool" where
  "stock_nonneg st = list_all (\<lambda>b. 0 \<le> b_stock b) (dict_values (books st))"

text \<open>
  \<^verbatim>\<open>uuid4\<close> is expected to return an identifier that is not in use. For a sequence of
  requests, \<open>fresh_order_ids\<close> says that each uuid drawn by an order creation is not yet a
  key of \<^verbatim>\<open>orders\<close> at that moment.
\<close>

fun fresh_order_ids :: "(string \<Rightarrow> string) \<Rightarrow> state \<Rightarrow> request list \<Rightarrow> bool" where
  "fresh_order_ids lower st [] = True"
| "fresh_order_ids lower st (r # rs) =
     ((case r of PostOrders uuid p \<Rightarrow> dict_get (orders st) uuid = None | _ \<Rightarrow> True) \<and>
      fresh_order_ids lower (snd (app lower st r)) rs)"

text \<open>The status line of the answer: 200 for a returned value, the error's code otherwise.\<close>

definition response_status :: "http_error + 'a \<Rightarrow> int" where
  "response_status r = (case r of Inl e \<Rightarrow> status_code e | Inr x \<Rightarrow> 200)"



subsection \<open>A small catalog used in the examples\<close>

text \<open>
  The examples are ASCII text, where \<^verbatim>\<open>str.lower\<close> moves the letters A to Z to a to z
  and keeps every other character; \<open>ascii_lower\<close> is that function, used for them only.
\<close>

definition ascii_lower_char :: "char \<Rightarrow> char" where
  "ascii_lower_char c =
     (let n = (of_char c :: nat) in if 65 \<le> n \<and> n \<le> 90 then char_of (n + 32) else c)"

definition ascii_lower :: "string \<Rightarrow> string" where
  "ascii_lower s = map ascii_lower_char s"

definition dune :: book where
  "dune = \<lparr>b_id = ''b1'', b_title = ''Dune'', b_author = ''Herbert'', b_stock = 10\<rparr>"

definition foundation :: book where
  "foundation = \<lparr>b_id = ''b2'', b_title = ''Foundation'', b_author = ''Asimov'', b_stock = 2\<rparr>"

definition order_dune :: order where
  "order_dune = \<lparr>o_id = ''o1'', o_book_id = ''b1'', o_qty = 3, o_customer_name = ''Ana'',
                  o_status = ''pending''\<rparr>"

definition order_foundation :: order where
  "order_foundation = \<lparr>o_id = ''o2'', o_book_id = ''b2'', o_qty = 5, o_customer_name = ''Budi'',
                        o_status = ''pending''\<rparr>"

definition shop :: state where
  "shop = \<lparr>books = [(''b1'', dune), (''b2'', foundation)],
           orders = [(''o1'', order_dune), (''o2'', order_foundation)]\<rparr>"

definition order_missing :: OrderCreate where
  "order_missing = \<lparr>book_id = ''zz'', qty = 1, customer_name = ''Cici''\<rparr>"

definition order_large :: OrderCreate where
  "order_large = \<lparr>book_id = ''b2'', qty = 5, customer_name = ''Cici''\<rparr>"

definition set_negative :: BookStockUpdate where
  "set_negative = \<lparr>set_stock = Some (- 1), delta = None\<rparr>"

definition delta_too_low :: BookStockUpdate where
  "delta_too_low = \<lparr>set_stock = None, delta = Some (- 11)\<rparr>"

definition neither_given :: BookStockUpdate where
  "neither_given = \<lparr>set_stock = None, delta = None\<rparr>"

definition both_given :: BookStockUpdate where
  "both_given = \<lparr>set_stock = Some 4, delta = Some 3\<rparr>"

definition both_given_negative :: BookStockUpdate where
  "both_given_negative = \<lparr>set_stock = Some (- 1), delta = Some 3\<rparr>"

definition book_negative :: BookCreate where
  "book_negative = \<lparr>title = ''Solaris'', author = ''Lem'', stock = - 4\<rparr>"

definition book_dune :: BookCreate where
  "book_dune = \<lparr>title = ''Dune'', author = ''Herbert'', stock = 10\<rparr>"

definition order_three :: OrderCreate where
  "order_three = \<lparr>book_id = ''b1'', qty = 3, customer_name = ''Ana''\<rparr>"

definition session :: "request list" where
  "session = [PostBooks ''b1'' book_dune, PostOrders ''o1'' order_three, PostConfirm ''o1'',
              PatchStock ''b1'' \<lparr>set_stock = None, delta = Some (- 7)\<rparr>]"


definition later_requests :: "request list" where
  "later_requests = [PostOrders ''o3'' order_three, PatchStock ''b1'' both_given,
                     PostConfirm ''o1'', PostConfirm ''o3'', GetOrder ''o1'']"



section \<open>Properties\<close>

subsection \<open>Lemmas on dictionaries and on the substring test\<close>

lemma dict_get_set: "dict_get (dict_set d k v) k' = (if k' = k then Some v else dict_get d k')"
  by (induction d k v rule: dict_set.induct) auto

lemma dict_get_None_iff: "dict_get d k = None \<longleftrightarrow> k \<notin> set (dict_keys d)"
  by (induction d k rule: dict_get.induct) (auto simp: dict_keys_def)

lemma dict_keys_set:
  "dict_keys (dict_set d k v) = (if k \<in> set (dict_keys d) then dict_keys d else dict_keys d @ [k])"
  by (induction d k v rule: dict_set.induct) (auto simp: dict_keys_def)

lemma dict_keys_set_present: "dict_get d k = Some v0 \<Longrightarrow> dict_keys (dict_set d k v) = dict_keys d"
  using dict_get_None_iff [of d k] by (simp add: dict_keys_set)

lemma dict_keys_set_absent: "dict_get d k = None \<Longrightarrow> dict_keys (dict_set d k v) = dict_keys d @ [k]"
  using dict_get_None_iff [of d k] by (simp add: dict_keys_set)

lemma dict_values_set_all:
  "list_all P (dict_values d) \<Longrightarrow> P v \<Longrightarrow> list_all P (dict_values (dict_set d k v))"
  by (induction d k v rule: dict_set.induct) (auto simp: dict_values_def)

lemma dict_get_values: "dict_get d k = Some v \<Longrightarrow> v \<in> set (dict_values d)"
  by (induction d k rule: dict_get.induct) (auto simp: dict_values_def split: if_splits)




lemmas shop_defs = shop_def dune_def foundation_def order_dune_def order_foundation_def

subsection \<open>Confirming an order\<close>

text \<open>
  C2. An order that is pending, whose book is in the catalog with a stock of at least the
  order's quantity, is confirmed: the handler returns (it does not raise), the book's stock
  afterwards is its stock before minus the quantity, the order's status is "confirmed", and
  the answer carries exactly these two updated records.
\<close>

theorem confirm_order_success:
  assumes "dict_get (orders st) oid = Some ord"
    and "o_status ord = ''pending''"
    and "dict_get (books st) (o_book_id ord) = Some b"
    and "o_qty ord \<le> b_stock b"
  shows "fst (confirm_order st oid) =
           Inr \<lparr>message = ''Pesanan berhasil dikonfirmasi'',
                conf_order = ord\<lparr>o_status := ''confirmed''\<rparr>,
                conf_book = b\<lparr>b_stock := b_stock b - o_qty ord\<rparr>\<rparr> \<and>
         dict_get (books (snd (confirm_order st oid))) (o_book_id ord) =
           Some (b\<lparr>b_stock := b_stock b - o_qty ord\<rparr>) \<and>
         dict_get (orders (snd (confirm_order st oid))) oid =
           Some (ord\<lparr>o_status := ''confirmed''\<rparr>)"
  using assms by (simp add: confirm_order_def Let_def dict_get_set)

text \<open>The example of the specification: stock 10, quantity 3, stock 7 afterwards.\<close>

theorem confirm_order_success_witness:
  "dict_get (orders shop) ''o1'' = Some order_dune \<and>
   o_status order_dune = ''pending'' \<and>
   dict_get (books shop) (o_book_id order_dune) = Some dune \<and>
   o_qty order_dune \<le> b_stock dune \<and>
   map_sum id (\<lambda>c. (b_stock (conf_book c), o_status (conf_order c))) (fst (confirm_order shop ''o1''))
     = Inr (7, ''confirmed'') \<and>
   map_option b_stock (dict_get (books (snd (confirm_order shop ''o1''))) ''b1'') = Some 7 \<and>
   map_option o_status (dict_get (orders (snd (confirm_order shop ''o1''))) ''o1'') = Some ''confirmed''"
proof -
  have h1: "dict_get (orders shop) ''o1'' = Some order_dune" by (simp add: shop_defs)
  have h2: "o_status order_dune = ''pending''" by (simp add: shop_defs)
  have h3: "dict_get (books shop) (o_book_id order_dune) = Some dune" by (simp add: shop_defs)
  have h4: "o_qty order_dune \<le> b_stock dune" by (simp add: shop_defs)
  have b1: "o_book_id order_dune = ''b1''" by (simp add: shop_defs)
  have q: "b_stock dune - o_qty order_dune = 7" by (simp add: shop_defs)
  show ?thesis
    using confirm_order_success [OF h1 h2 h3 h4] h1 h2 h3 h4 b1 q by simp
qed

text \<open>
  C4. An order that is pending, whose book is in the catalog with a stock below the order's
  quantity, is not confirmed: the handler raises status 400 ("Stok tidak mencukupi untuk
  konfirmasi", the specification's InvalidState) and the state it leaves is the state it
  found; in particular the book's stock and the order's status are what they were.
\<close>

theorem confirm_order_insufficient:
  assumes "dict_get (orders st) oid = Some ord"
    and "o_status ord = ''pending''"
    and "dict_get (books st) (o_book_id ord) = Some b"
    and "b_stock b < o_qty ord"
  shows "confirm_order st oid =
           (Inl (HTTPException 400 ''Stok tidak mencukupi untuk konfirmasi''), st) \<and>
         dict_get (books (snd (confirm_order st oid))) (o_book_id ord) = Some b \<and>
         dict_get (orders (snd (confirm_order st oid))) oid = Some ord"
  using assms by (simp add: confirm_order_def)

text \<open>The example of the specification: stock 2, quantity 5.\<close>

theorem confirm_order_insufficient_witness:
  "dict_get (orders shop) ''o2'' = Some order_foundation \<and>
   o_status order_foundation = ''pending'' \<and>
   dict_get (books shop) (o_book_id order_foundation) = Some foundation \<and>
   b_stock foundation < o_qty order_foundation \<and>
   response_status (fst (confirm_order shop ''o2'')) = 400 \<and>
   snd (confirm_order shop ''o2'') = shop \<and>
   map_option b_stock (dict_get (books (snd (confirm_order shop ''o2''))) ''b2'') = Some 2 \<and>
   map_option o_status (dict_get (orders (snd (confirm_order shop ''o2''))) ''o2'') = Some ''pending''"
proof -
  have h1: "dict_get (orders shop) ''o2'' = Some order_foundation" by (simp add: shop_defs)
  have h2: "o_status order_foundation = ''pending''" by (simp add: shop_defs)
  have h3: "dict_get (books shop) (o_book_id order_foundation) = Some foundation"
    by (simp add: shop_defs)
  have h4: "b_stock foundation < o_qty order_foundation" by (simp add: shop_defs)
  have b2: "o_book_id order_foundation = ''b2''" by (simp add: shop_defs)
  have s: "b_stock foundation = 2" by (simp add: shop_defs)
  show ?thesis
    using confirm_order_insufficient [OF h1 h2 h3 h4] h1 h2 h3 h4 b2 s
    by (simp add: response_status_def)
qed

text \<open>
  C10. A successful confirmation writes two fields and nothing else. The order stored
  under the confirmed id is the old record with only its status replaced (so its id, book
  id, quantity and customer name are the old ones); the book stored under the order's book
  id is the old record with only its stock replaced (so its id, title and author are the
  old ones); every other key of both dictionaries maps to what it mapped to before; and the
  keys of both dictionaries, with their order, are unchanged.
\<close>

theorem confirm_order_frame:
  assumes "dict_get (orders st) oid = Some ord"
    and "o_status ord = ''pending''"
    and "dict_get (books st) (o_book_id ord) = Some b"
    and "o_qty ord \<le> b_stock b"
    and "confirm_order st oid = (res, st')"
  shows "dict_get (orders st') oid = Some (ord\<lparr>o_status := ''confirmed''\<rparr>) \<and>
         dict_get (books st') (o_book_id ord) = Some (b\<lparr>b_stock := b_stock b - o_qty ord\<rparr>) \<and>
         (\<forall>k. k \<noteq> oid \<longrightarrow> dict_get (orders st') k = dict_get (orders st) k) \<and>
         (\<forall>k. k \<noteq> o_book_id ord \<longrightarrow> dict_get (books st') k = dict_get (books st) k) \<and>
         dict_keys (orders st') = dict_keys (orders st) \<and>
         dict_keys (books st') = dict_keys (books st)"
  using assms
  by (auto simp: confirm_order_def Let_def dict_get_set dict_keys_set_present)

text \<open>Confirming the first order of the example leaves the second order and book alone.\<close>

theorem confirm_order_frame_witness:
  "dict_get (orders shop) ''o1'' = Some order_dune \<and>
   o_status order_dune = ''pending'' \<and>
   dict_get (books shop) (o_book_id order_dune) = Some dune \<and>
   o_qty order_dune \<le> b_stock dune \<and>
   dict_get (orders (snd (confirm_order shop ''o1''))) ''o1'' =
     Some (order_dune\<lparr>o_status := ''confirmed''\<rparr>) \<and>
   dict_get (books (snd (confirm_order shop ''o1''))) ''b1'' = Some (dune\<lparr>b_stock := 7\<rparr>) \<and>
   dict_get (orders (snd (confirm_order shop ''o1''))) ''o2'' = Some order_foundation \<and>
   dict_get (books (snd (confirm_order shop ''o1''))) ''b2'' = Some foundation \<and>
   dict_keys (orders (snd (confirm_order shop ''o1''))) = [''o1'', ''o2''] \<and>
   dict_keys (books (snd (confirm_order shop ''o1''))) = [''b1'', ''b2'']"
proof -
  have h1: "dict_get (orders shop) ''o1'' = Some order_dune" by (simp add: shop_defs)
  have h2: "o_status order_dune = ''pending''" by (simp add: shop_defs)
  have h3: "dict_get (books shop) (o_book_id order_dune) = Some dune" by (simp add: shop_defs)
  have h4: "o_qty order_dune \<le> b_stock dune" by (simp add: shop_defs)
  have h5: "confirm_order shop ''o1'' = (fst (confirm_order shop ''o1''), snd (confirm_order shop ''o1''))"
    by simp
  have b1: "o_book_id order_dune = ''b1''" by (simp add: shop_defs)
  have q: "b_stock dune - o_qty order_dune = 7" by (simp add: shop_defs)
  have o2: "dict_get (orders shop) ''o2'' = Some order_foundation" by (simp add: shop_defs)
  have b2: "dict_get (books shop) ''b2'' = Some foundation" by (simp add: shop_defs)
  have ko: "dict_keys (orders shop) = [''o1'', ''o2'']" by (simp add: shop_defs dict_keys_def)
  have kb: "dict_keys (books shop) = [''b1'', ''b2'']" by (simp add: shop_defs dict_keys_def)
  show ?thesis
    using confirm_order_frame [OF h1 h2 h3 h4 h5] h1 h2 h3 h4 b1 q o2 b2 ko kb by simp
qed

subsection \<open>Creating an order\<close>

lemma app_PostOrders:
  "valid_OrderCreate p \<Longrightarrow> app lower st (PostOrders uuid p) =
     (case dict_get (books st) (book_id p) of
        None \<Rightarrow> (Inl (HTTPException 404 ''Buku tidak ditemukan''), st)
      | Some b \<Rightarrow>
          (Inr (ROrder \<lparr>o_id = uuid, o_book_id = book_id p, o_qty = qty p,
                        o_customer_name = customer_name p, o_status = ''pending''\<rparr>),
           st\<lparr>orders := dict_set (orders st) uuid
                 \<lparr>o_id = uuid, o_book_id = book_id p, o_qty = qty p,
                  o_customer_name = customer_name p, o_status = ''pending''\<rparr>\<rparr>))"
  by (simp add: create_order_def lift_result_def Let_def split: option.splits)

text \<open>
  C7. A request to create an order with a positive quantity and a non-empty customer name:
  when its book id is not in the catalog, the answer is 404 and the state is unchanged (no
  order is stored); when it is, whatever the book's stock, the answer is the new order with
  status "pending", stored under the drawn uuid (as a further key after the existing ones
  when the uuid is not in use), and the catalog is unchanged.
\<close>

theorem create_order_checks_book_only:
  assumes "0 < qty p" and "customer_name p \<noteq> []"
  shows "(dict_get (books st) (book_id p) = None \<longrightarrow>
            app lower st (PostOrders uuid p) = (Inl (HTTPException 404 ''Buku tidak ditemukan''), st)) \<and>
         (\<forall>b. dict_get (books st) (book_id p) = Some b \<longrightarrow>
            app lower st (PostOrders uuid p) =
              (Inr (ROrder \<lparr>o_id = uuid, o_book_id = book_id p, o_qty = qty p,
                            o_customer_name = customer_name p, o_status = ''pending''\<rparr>),
               st\<lparr>orders := dict_set (orders st) uuid
                     \<lparr>o_id = uuid, o_book_id = book_id p, o_qty = qty p,
                      o_customer_name = customer_name p, o_status = ''pending''\<rparr>\<rparr>) \<and>
            books (snd (app lower st (PostOrders uuid p))) = books st \<and>
            dict_get (orders (snd (app lower st (PostOrders uuid p)))) uuid =
              Some \<lparr>o_id = uuid, o_book_id = book_id p, o_qty = qty p,
                    o_customer_name = customer_name p, o_status = ''pending''\<rparr> \<and>
            (dict_get (orders st) uuid = None \<longrightarrow>
               dict_keys (orders (snd (app lower st (PostOrders uuid p)))) = dict_keys (orders st) @ [uuid]))"
proof -
  have v: "valid_OrderCreate p"
    using assms by (cases "customer_name p") (simp_all add: valid_OrderCreate_def)
  show ?thesis
    by (simp add: app_PostOrders [OF v] dict_get_set dict_keys_set_absent del: app.simps)
qed

text \<open>An unknown book id; then the second book of the example, stock 2, ordered 5 times.\<close>

theorem create_order_checks_book_only_witness:
  "0 < qty order_missing \<and> customer_name order_missing \<noteq> [] \<and>
   dict_get (books shop) (book_id order_missing) = None \<and>
   app ascii_lower shop (PostOrders ''o3'' order_missing) =
     (Inl (HTTPException 404 ''Buku tidak ditemukan''), shop) \<and>
   0 < qty order_large \<and> customer_name order_large \<noteq> [] \<and>
   dict_get (books shop) (book_id order_large) = Some foundation \<and>
   b_stock foundation < qty order_large \<and>
   fst (app ascii_lower shop (PostOrders ''o3'' order_large)) =
     Inr (ROrder \<lparr>o_id = ''o3'', o_book_id = ''b2'', o_qty = 5, o_customer_name = ''Cici'',
                  o_status = ''pending''\<rparr>) \<and>
   books (snd (app ascii_lower shop (PostOrders ''o3'' order_large))) = books shop \<and>
   dict_keys (orders (snd (app ascii_lower shop (PostOrders ''o3'' order_large)))) = [''o1'', ''o2'', ''o3'']"
proof -
  have m1: "0 < qty order_missing" by (simp add: order_missing_def)
  have m2: "customer_name order_missing \<noteq> []" by (simp add: order_missing_def)
  have m3: "dict_get (books shop) (book_id order_missing) = None"
    by (simp add: order_missing_def shop_defs)
  have l1: "0 < qty order_large" by (simp add: order_large_def)
  have l2: "customer_name order_large \<noteq> []" by (simp add: order_large_def)
  have l3: "dict_get (books shop) (book_id order_large) = Some foundation"
    by (simp add: order_large_def shop_defs)
  have l4: "b_stock foundation < qty order_large" by (simp add: order_large_def shop_defs)
  have l5: "dict_get (orders shop) ''o3'' = None" by (simp add: shop_defs)
  have l6: "dict_keys (orders shop) = [''o1'', ''o2'']" by (simp add: shop_defs dict_keys_def)
  have l7: "book_id order_large = ''b2''" "qty order_large = 5" "customer_name order_large = ''Cici''"
    by (simp_all add: order_large_def)
  show ?thesis
    using create_order_checks_book_only [OF m1 m2, where st = shop and uuid = "''o3''" and lower = ascii_lower]
      create_order_checks_book_only [OF l1 l2, where st = shop and uuid = "''o3''" and lower = ascii_lower]
      m1 m2 m3 l1 l2 l3 l4 l5 l6 l7
    by (simp add: dict_keys_set_absent [OF l5] del: app.simps)
qed


subsection \<open>Updating a stock\<close>

lemma app_PatchStock_invalid:
  "set_stock p = Some v \<Longrightarrow> v < 0 \<Longrightarrow> app lower st (PatchStock bid p) = (Inl RequestValidationError, st)"
  by (simp add: valid_BookStockUpdate_def)

lemma app_PatchStock_delta_negative:
  "dict_get (books st) bid = Some b \<Longrightarrow> set_stock p = None \<Longrightarrow> delta p = Some dl \<Longrightarrow>
   b_stock b + dl < 0 \<Longrightarrow>
   app lower st (PatchStock bid p) = (Inl (HTTPException 400 ''Stok tidak boleh negatif''), st)"
  by (simp add: valid_BookStockUpdate_def update_stock_def lift_result_def)

text \<open>
  C5, as the specification states it: every stock update of an existing book whose result
  would be negative is answered with status 400. That fails for a negative \<^verbatim>\<open>set_stock\<close>:
  the body violates \<^verbatim>\<open>Field(ge=0)\<close>, the handler is never entered, and the status is 422.
\<close>

theorem update_stock_negative_counterexample:
  "dict_get (books shop) ''b1'' = Some dune \<and>
   set_stock set_negative = Some (- 1) \<and>
   response_status (fst (app ascii_lower shop (PatchStock ''b1'' set_negative))) = 422 \<and>
   response_status (fst (app ascii_lower shop (PatchStock ''b1'' set_negative))) \<noteq> 400"
  by (simp add: shop_defs set_negative_def valid_BookStockUpdate_def response_status_def)

text \<open>
  C5, amended. A stock update of an existing book whose result would be negative is
  rejected and leaves the state unchanged: a negative \<^verbatim>\<open>set_stock\<close> (with or without a
  delta) is answered with status 422, and a delta alone with current stock plus delta
  negative is answered with status 400 ("Stok tidak boleh negatif").
\<close>

theorem update_stock_negative_rejected:
  assumes "dict_get (books st) bid = Some b"
  shows "(\<forall>v. set_stock p = Some v \<and> v < 0 \<longrightarrow>
            app lower st (PatchStock bid p) = (Inl RequestValidationError, st) \<and>
            response_status (fst (app lower st (PatchStock bid p))) = 422) \<and>
         (\<forall>dl. set_stock p = None \<and> delta p = Some dl \<and> b_stock b + dl < 0 \<longrightarrow>
            app lower st (PatchStock bid p) = (Inl (HTTPException 400 ''Stok tidak boleh negatif''), st) \<and>
            response_status (fst (app lower st (PatchStock bid p))) = 400)"
  using assms
  by (auto simp: app_PatchStock_invalid app_PatchStock_delta_negative response_status_def
      simp del: app.simps)

theorem update_stock_negative_rejected_witness:
  "dict_get (books shop) ''b1'' = Some dune \<and>
   set_stock set_negative = Some (- 1) \<and>
   app ascii_lower shop (PatchStock ''b1'' set_negative) = (Inl RequestValidationError, shop) \<and>
   response_status (fst (app ascii_lower shop (PatchStock ''b1'' set_negative))) = 422 \<and>
   set_stock delta_too_low = None \<and> delta delta_too_low = Some (- 11) \<and>
   b_stock dune + (- 11) < 0 \<and>
   app ascii_lower shop (PatchStock ''b1'' delta_too_low) =
     (Inl (HTTPException 400 ''Stok tidak boleh negatif''), shop) \<and>
   response_status (fst (app ascii_lower shop (PatchStock ''b1'' delta_too_low))) = 400"
proof -
  have h: "dict_get (books shop) ''b1'' = Some dune" by (simp add: shop_defs)
  have s: "set_stock set_negative = Some (- 1)" by (simp add: set_negative_def)
  have d: "set_stock delta_too_low = None" "delta delta_too_low = Some (- 11)"
    by (simp_all add: delta_too_low_def)
  have n: "b_stock dune + (- 11) < 0" by (simp add: shop_defs)
  show ?thesis
    using update_stock_negative_rejected [OF h, where p = set_negative and lower = ascii_lower]
      update_stock_negative_rejected [OF h, where p = delta_too_low and lower = ascii_lower] h s d n
    by (simp add: response_status_def del: app.simps)
qed

text \<open>
  C6, as the specification states it: a stock update that gives both fields, or neither,
  is answered with status 400. That fails when both are given and \<^verbatim>\<open>set_stock\<close> is
  negative: the status is 422.
\<close>

theorem update_stock_both_counterexample:
  "dict_get (books shop) ''b1'' = Some dune \<and>
   set_stock both_given_negative = Some (- 1) \<and> delta both_given_negative = Some 3 \<and>
   response_status (fst (app ascii_lower shop (PatchStock ''b1'' both_given_negative))) = 422 \<and>
   response_status (fst (app ascii_lower shop (PatchStock ''b1'' both_given_negative))) \<noteq> 400"
  by (simp add: shop_defs both_given_negative_def valid_BookStockUpdate_def response_status_def)

text \<open>
  C6, amended. A stock update of an existing book that gives neither field is answered
  with status 400; one that gives both with a \<^verbatim>\<open>set_stock\<close> of at least 0 is answered
  with status 400; one that gives both with a negative \<^verbatim>\<open>set_stock\<close> is answered with
  status 422. In all three cases the state, and so the book's stock, is unchanged.
\<close>

theorem update_stock_both_or_neither:
  assumes "dict_get (books st) bid = Some b"
  shows "(set_stock p = None \<and> delta p = None \<longrightarrow>
            app lower st (PatchStock bid p) = (Inl (HTTPException 400 ''Isi set_stock atau delta''), st)) \<and>
         (\<forall>v dl. set_stock p = Some v \<and> delta p = Some dl \<and> 0 \<le> v \<longrightarrow>
            app lower st (PatchStock bid p) =
              (Inl (HTTPException 400 ''Pilih salah satu: set_stock atau delta''), st)) \<and>
         (\<forall>v dl. set_stock p = Some v \<and> delta p = Some dl \<and> v < 0 \<longrightarrow>
            app lower st (PatchStock bid p) = (Inl RequestValidationError, st) \<and>
            response_status (fst (app lower st (PatchStock bid p))) = 422)"
  using assms
  by (auto simp: valid_BookStockUpdate_def update_stock_def lift_result_def response_status_def)

theorem update_stock_both_or_neither_witness:
  "dict_get (books shop) ''b1'' = Some dune \<and>
   set_stock neither_given = None \<and> delta neither_given = None \<and>
   app ascii_lower shop (PatchStock ''b1'' neither_given) =
     (Inl (HTTPException 400 ''Isi set_stock atau delta''), shop) \<and>
   set_stock both_given = Some 4 \<and> delta both_given = Some 3 \<and>
   app ascii_lower shop (PatchStock ''b1'' both_given) =
     (Inl (HTTPException 400 ''Pilih salah satu: set_stock atau delta''), shop) \<and>
   set_stock both_given_negative = Some (- 1) \<and> delta both_given_negative = Some 3 \<and>
   app ascii_lower shop (PatchStock ''b1'' both_given_negative) = (Inl RequestValidationError, shop)"
proof -
  have h: "dict_get (books shop) ''b1'' = Some dune" by (simp add: shop_defs)
  have n: "set_stock neither_given = None" "delta neither_given = None"
    by (simp_all add: neither_given_def)
  have b: "set_stock both_given = Some 4" "delta both_given = Some 3"
    by (simp_all add: both_given_def)
  have m: "set_stock both_given_negative = Some (- 1)" "delta both_given_negative = Some 3"
    by (simp_all add: both_given_negative_def)
  show ?thesis
    using update_stock_both_or_neither [OF h, where p = neither_given and lower = ascii_lower]
      update_stock_both_or_neither [OF h, where p = both_given and lower = ascii_lower]
      update_stock_both_or_neither [OF h, where p = both_given_negative and lower = ascii_lower] h n b m
    by (simp del: app.simps)
qed


subsection \<open>The stock invariant\<close>

lemma stock_nonneg_books_set:
  "stock_nonneg st \<Longrightarrow> 0 \<le> b_stock b \<Longrightarrow>
   stock_nonneg (st\<lparr>books := dict_set (books st) k b\<rparr>)"
  by (simp add: stock_nonneg_def dict_values_set_all)

lemma create_book_stock_nonneg:
  "stock_nonneg st \<Longrightarrow> 0 \<le> stock p \<Longrightarrow> stock_nonneg (snd (create_book st uuid p))"
  by (simp add: create_book_def Let_def stock_nonneg_books_set)

lemma update_stock_stock_nonneg:
  "stock_nonneg st \<Longrightarrow> valid_BookStockUpdate p \<Longrightarrow> stock_nonneg (snd (update_stock st bid p))"
  by (auto simp: update_stock_def Let_def valid_BookStockUpdate_def stock_nonneg_books_set
      split: option.splits)

lemma create_order_books: "books (snd (create_order st uuid p)) = books st"
  by (simp add: create_order_def Let_def split: option.splits)

lemma stock_nonneg_cong: "books st' = books st \<Longrightarrow> stock_nonneg st' = stock_nonneg st"
  by (simp add: stock_nonneg_def)

lemma confirm_order_stock_nonneg:
  "stock_nonneg st \<Longrightarrow> stock_nonneg (snd (confirm_order st oid))"
proof -
  assume inv: "stock_nonneg st"
  have upd: "stock_nonneg (st\<lparr>books := dict_set (books st) k b, orders := os\<rparr>)"
    if "0 \<le> b_stock b" for k b os
    using inv that by (simp add: stock_nonneg_def dict_values_set_all)
  show ?thesis
    using inv by (auto simp: confirm_order_def Let_def upd split: option.splits)
qed

lemma snd_lift_result: "snd (lift_result f r) = snd r"
  by (simp add: lift_result_def split: sum.splits)

lemma app_stock_nonneg: "stock_nonneg st \<Longrightarrow> stock_nonneg (snd (app lower st r))"
proof (cases r)
  case (PostBooks uuid p)
  then show "stock_nonneg st \<Longrightarrow> ?thesis"
    by (simp add: snd_lift_result create_book_stock_nonneg valid_BookCreate_def)
next
  case (PatchStock bid p)
  then show "stock_nonneg st \<Longrightarrow> ?thesis"
    by (simp add: snd_lift_result update_stock_stock_nonneg)
next
  case (PostOrders uuid p)
  then show "stock_nonneg st \<Longrightarrow> ?thesis"
    by (simp add: snd_lift_result stock_nonneg_cong [OF create_order_books])
next
  case (PostConfirm oid)
  then show "stock_nonneg st \<Longrightarrow> ?thesis"
    by (simp add: snd_lift_result confirm_order_stock_nonneg)
qed (simp_all add: snd_lift_result get_book_def get_order_def split: option.splits)

lemma run_stock_nonneg: "stock_nonneg st \<Longrightarrow> stock_nonneg (run lower st rs)"
  by (induction rs arbitrary: st) (simp_all add: app_stock_nonneg del: app.simps)

lemma init_stock_nonneg: "stock_nonneg init_state"
  by (simp add: stock_nonneg_def init_state_def dict_values_def)

lemma app_PostBooks_invalid:
  "stock p < 0 \<Longrightarrow> app lower st (PostBooks uuid p) = (Inl RequestValidationError, st)"
  by (simp add: valid_BookCreate_def)

lemma app_PostConfirm_negative:
  "dict_get (orders st) oid = Some ord \<Longrightarrow> dict_get (books st) (o_book_id ord) = Some b \<Longrightarrow>
   b_stock b - o_qty ord < 0 \<Longrightarrow> \<exists>e. app lower st (PostConfirm oid) = (Inl e, st)"
  by (simp add: confirm_order_def lift_result_def)

text \<open>
  C1. In every state reached from the empty stores by any sequence of requests, every book's
  stock is at least 0 (as a property of the list of books, and of every lookup); each single
  request keeps it so. A request whose result would be a negative stock is answered with an
  error and leaves the state as it was: creating a book with a negative stock, setting a
  negative stock, adding a delta that takes the current stock below 0, and confirming an
  order whose quantity exceeds the stock of its book.
\<close>

theorem stock_never_negative:
  "stock_nonneg (run lower init_state rs) \<and>
   (\<forall>k b. dict_get (books (run lower init_state rs)) k = Some b \<longrightarrow> 0 \<le> b_stock b) \<and>
   (stock_nonneg st \<longrightarrow> stock_nonneg (snd (app lower st r))) \<and>
   (stock c < 0 \<longrightarrow> (\<exists>e. app lower st (PostBooks uuid c) = (Inl e, st))) \<and>
   (\<forall>v. set_stock p = Some v \<and> v < 0 \<longrightarrow> (\<exists>e. app lower st (PatchStock bid p) = (Inl e, st))) \<and>
   (\<forall>b dl. dict_get (books st) bid = Some b \<and> set_stock p = None \<and> delta p = Some dl \<and>
      b_stock b + dl < 0 \<longrightarrow> (\<exists>e. app lower st (PatchStock bid p) = (Inl e, st))) \<and>
   (\<forall>ord b. dict_get (orders st) oid = Some ord \<and> dict_get (books st) (o_book_id ord) = Some b \<and>
      b_stock b - o_qty ord < 0 \<longrightarrow> (\<exists>e. app lower st (PostConfirm oid) = (Inl e, st)))"
proof -
  have a: "stock_nonneg (run lower init_state rs)"
    by (rule run_stock_nonneg [OF init_stock_nonneg])
  have a': "\<forall>k b. dict_get (books (run lower init_state rs)) k = Some b \<longrightarrow> 0 \<le> b_stock b"
    using a dict_get_values [where d = "books (run lower init_state rs)"]
    by (auto simp: stock_nonneg_def list_all_iff)
  have b: "stock_nonneg st \<longrightarrow> stock_nonneg (snd (app lower st r))"
    using app_stock_nonneg by blast
  have c: "stock c < 0 \<longrightarrow> (\<exists>e. app lower st (PostBooks uuid c) = (Inl e, st))"
    using app_PostBooks_invalid by blast
  have d: "\<forall>v. set_stock p = Some v \<and> v < 0 \<longrightarrow> (\<exists>e. app lower st (PatchStock bid p) = (Inl e, st))"
    using app_PatchStock_invalid by blast
  have e: "\<forall>b dl. dict_get (books st) bid = Some b \<and> set_stock p = None \<and> delta p = Some dl \<and>
      b_stock b + dl < 0 \<longrightarrow> (\<exists>e. app lower st (PatchStock bid p) = (Inl e, st))"
    using app_PatchStock_delta_negative by blast
  have f: "\<forall>ord b. dict_get (orders st) oid = Some ord \<and> dict_get (books st) (o_book_id ord) = Some b \<and>
      b_stock b - o_qty ord < 0 \<longrightarrow> (\<exists>e. app lower st (PostConfirm oid) = (Inl e, st))"
    using app_PostConfirm_negative by blast
  from a a' b c d e f show ?thesis by blast
qed

text \<open>
  A session that creates a book with stock 10, orders and confirms 3, and takes 7 more away
  ends with stock 0; the four rejected requests on the example catalog.
\<close>

theorem stock_never_negative_witness:
  "stock_nonneg (run ascii_lower init_state session) \<and>
   map (\<lambda>kv. b_stock (snd kv)) (books (run ascii_lower init_state session)) = [0] \<and>
   map_option b_stock (dict_get (books (run ascii_lower init_state session)) ''b1'') = Some 0 \<and>
   stock_nonneg shop \<and>
   stock_nonneg (snd (app ascii_lower shop (PostConfirm ''o1''))) \<and>
   stock book_negative < 0 \<and>
   app ascii_lower shop (PostBooks ''b3'' book_negative) = (Inl RequestValidationError, shop) \<and>
   set_stock set_negative = Some (- 1) \<and>
   app ascii_lower shop (PatchStock ''b1'' set_negative) = (Inl RequestValidationError, shop) \<and>
   dict_get (books shop) ''b1'' = Some dune \<and>
   set_stock delta_too_low = None \<and> delta delta_too_low = Some (- 11) \<and>
   b_stock dune + (- 11) < 0 \<and>
   app ascii_lower shop (PatchStock ''b1'' delta_too_low) =
     (Inl (HTTPException 400 ''Stok tidak boleh negatif''), shop) \<and>
   dict_get (orders shop) ''o2'' = Some order_foundation \<and>
   dict_get (books shop) (o_book_id order_foundation) = Some foundation \<and>
   b_stock foundation - o_qty order_foundation < 0 \<and>
   app ascii_lower shop (PostConfirm ''o2'') =
     (Inl (HTTPException 400 ''Stok tidak mencukupi untuk konfirmasi''), shop)"
proof -
  have r: "map (\<lambda>kv. b_stock (snd kv)) (books (run ascii_lower init_state session)) = [0]"
    by code_simp
  have r': "map_option b_stock (dict_get (books (run ascii_lower init_state session)) ''b1'') = Some 0"
    by code_simp
  have s: "stock_nonneg shop" by code_simp
  have c: "stock book_negative < 0" by (simp add: book_negative_def)
  have c': "app ascii_lower shop (PostBooks ''b3'' book_negative) = (Inl RequestValidationError, shop)"
    by (simp add: book_negative_def valid_BookCreate_def)
  have p: "set_stock set_negative = Some (- 1)" by (simp add: set_negative_def)
  have p': "app ascii_lower shop (PatchStock ''b1'' set_negative) = (Inl RequestValidationError, shop)"
    by (simp add: set_negative_def valid_BookStockUpdate_def)
  have d: "dict_get (books shop) ''b1'' = Some dune" "set_stock delta_too_low = None"
    "delta delta_too_low = Some (- 11)" "b_stock dune + (- 11) < 0"
    by (simp_all add: shop_defs delta_too_low_def)
  have d': "app ascii_lower shop (PatchStock ''b1'' delta_too_low) =
     (Inl (HTTPException 400 ''Stok tidak boleh negatif''), shop)"
    by (rule app_PatchStock_delta_negative [OF d])
  have o: "dict_get (orders shop) ''o2'' = Some order_foundation"
    "dict_get (books shop) (o_book_id order_foundation) = Some foundation"
    "b_stock foundation - o_qty order_foundation < 0"
    by (simp_all add: shop_defs)
  have o': "app ascii_lower shop (PostConfirm ''o2'') =
     (Inl (HTTPException 400 ''Stok tidak mencukupi untuk konfirmasi''), shop)"
    by (simp add: confirm_order_def lift_result_def shop_defs)
  show ?thesis
    using stock_never_negative [where lower = ascii_lower and rs = session and st = shop
        and r = "PostConfirm ''o1''" and c = book_negative and uuid = "''b3''"
        and p = set_negative and bid = "''b1''" and oid = "''o2''"] r r' s c c' p p' d d' o o'
    by (simp del: app.simps)
qed

subsection \<open>An order is confirmed at most once\<close>

lemma confirm_order_processed:
  "dict_get (orders st) oid = Some ord \<Longrightarrow> o_status ord \<noteq> ''pending'' \<Longrightarrow>
   confirm_order st oid = (Inl (HTTPException 400 ''Pesanan sudah diproses / bukan pending''), st)"
  by (simp add: confirm_order_def)

lemma confirm_order_other:
  "dict_get (orders st) oid = Some ord \<Longrightarrow> oid' \<noteq> oid \<Longrightarrow>
   dict_get (orders (snd (confirm_order st oid'))) oid = Some ord"
  by (auto simp: confirm_order_def Let_def dict_get_set split: option.splits)

lemma create_book_orders: "orders (snd (create_book st uuid p)) = orders st"
  by (simp add: create_book_def Let_def)

lemma update_stock_orders: "orders (snd (update_stock st bid p)) = orders st"
  by (auto simp: update_stock_def Let_def split: option.splits)

lemma create_order_other:
  "dict_get (orders st) oid = Some ord \<Longrightarrow> dict_get (orders st) uuid = None \<Longrightarrow>
   dict_get (orders (snd (create_order st uuid p))) oid = Some ord"
  by (auto simp: create_order_def Let_def dict_get_set split: option.splits)

lemma app_keeps_processed:
  assumes "dict_get (orders st) oid = Some ord" and "o_status ord \<noteq> ''pending''"
    and "fresh_order_ids lower st [r]"
  shows "dict_get (orders (snd (app lower st r))) oid = Some ord"
proof (cases r)
  case (PostBooks uuid p)
  with assms show ?thesis by (simp add: snd_lift_result create_book_orders)
next
  case (PatchStock bid p)
  with assms show ?thesis by (simp add: snd_lift_result update_stock_orders)
next
  case (PostOrders uuid p)
  with assms show ?thesis by (simp add: snd_lift_result create_order_other)
next
  case (PostConfirm oid')
  show ?thesis
  proof (cases "oid' = oid")
    case True
    with assms PostConfirm show ?thesis
      by (simp add: snd_lift_result confirm_order_processed)
  next
    case False
    with assms PostConfirm show ?thesis
      by (simp add: snd_lift_result confirm_order_other)
  qed
qed (use assms in \<open>simp_all add: snd_lift_result get_book_def get_order_def split: option.splits\<close>)

lemma run_keeps_processed:
  "dict_get (orders st) oid = Some ord \<Longrightarrow> o_status ord \<noteq> ''pending'' \<Longrightarrow>
   fresh_order_ids lower st rs \<Longrightarrow> dict_get (orders (run lower st rs)) oid = Some ord"
proof (induction rs arbitrary: st)
  case Nil
  then show ?case by simp
next
  case (Cons r rs)
  from Cons.prems(3) have f1: "fresh_order_ids lower st [r]" and f2: "fresh_order_ids lower (snd (app lower st r)) rs"
    by simp_all
  have "dict_get (orders (snd (app lower st r))) oid = Some ord"
    by (rule app_keeps_processed [OF Cons.prems(1,2) f1])
  from Cons.IH [OF this Cons.prems(2) f2] show ?case by simp
qed

lemma confirm_order_Inr:
  assumes "confirm_order st oid = (Inr c, st1)"
  shows "\<exists>ord. dict_get (orders st) oid = Some ord \<and>
           dict_get (orders st1) oid = Some (ord\<lparr>o_status := ''confirmed''\<rparr>)"
  using assms
  by (auto simp: confirm_order_def Let_def dict_get_set split: option.splits if_splits)

text \<open>
  The assumption on the uuids cannot be dropped: an order created under a uuid that is in
  use replaces the stored order, confirmed or not.
\<close>

lemma create_order_reused_uuid:
  "map_option o_status
     (dict_get (orders (run ascii_lower (snd (confirm_order shop ''o1'')) [PostOrders ''o1'' order_three])) ''o1'')
   = Some ''pending''"
  by code_simp

text \<open>
  C3. After a successful confirmation of an order, and after any further sequence of
  requests in which every uuid drawn for a new order is unused, the order is still stored
  with status "confirmed", and confirming it again is answered with status 400 ("Pesanan
  sudah diproses / bukan pending", the specification's InvalidState) and leaves the state
  as it was. With no further request this is the immediate second call.
\<close>

theorem confirm_at_most_once:
  assumes "confirm_order st oid = (Inr c, st1)"
    and "fresh_order_ids lower st1 rs"
  shows "(\<exists>ord. dict_get (orders (run lower st1 rs)) oid = Some ord \<and> o_status ord = ''confirmed'') \<and>
         confirm_order (run lower st1 rs) oid =
           (Inl (HTTPException 400 ''Pesanan sudah diproses / bukan pending''), run lower st1 rs)"
proof -
  from confirm_order_Inr [OF assms(1)] obtain ord where
    o1: "dict_get (orders st1) oid = Some (ord\<lparr>o_status := ''confirmed''\<rparr>)" by blast
  have np: "o_status (ord\<lparr>o_status := ''confirmed''\<rparr>) \<noteq> ''pending''" by simp
  have o2: "dict_get (orders (run lower st1 rs)) oid = Some (ord\<lparr>o_status := ''confirmed''\<rparr>)"
    by (rule run_keeps_processed [OF o1 np assms(2)])
  from o2 confirm_order_processed [OF o2 np] show ?thesis by simp
qed

text \<open>
  After the first order of the example is confirmed: another order is created and
  confirmed, a stock update is refused, and the first order is confirmed again in between.
\<close>

theorem confirm_at_most_once_witness:
  "fst (confirm_order shop ''o1'') =
     Inr \<lparr>message = ''Pesanan berhasil dikonfirmasi'',
          conf_order = order_dune\<lparr>o_status := ''confirmed''\<rparr>,
          conf_book = dune\<lparr>b_stock := 7\<rparr>\<rparr> \<and>
   fresh_order_ids ascii_lower (snd (confirm_order shop ''o1'')) later_requests \<and>
   map_option o_status
     (dict_get (orders (run ascii_lower (snd (confirm_order shop ''o1'')) later_requests)) ''o1'') =
     Some ''confirmed'' \<and>
   confirm_order (run ascii_lower (snd (confirm_order shop ''o1'')) later_requests) ''o1'' =
     (Inl (HTTPException 400 ''Pesanan sudah diproses / bukan pending''),
      run ascii_lower (snd (confirm_order shop ''o1'')) later_requests)"
proof -
  have e: "fst (confirm_order shop ''o1'') =
     Inr \<lparr>message = ''Pesanan berhasil dikonfirmasi'',
          conf_order = order_dune\<lparr>o_status := ''confirmed''\<rparr>,
          conf_book = dune\<lparr>b_stock := 7\<rparr>\<rparr>"
    by (simp add: confirm_order_def Let_def shop_defs)
  have h1: "confirm_order shop ''o1'' =
     (Inr \<lparr>message = ''Pesanan berhasil dikonfirmasi'',
           conf_order = order_dune\<lparr>o_status := ''confirmed''\<rparr>,
           conf_book = dune\<lparr>b_stock := 7\<rparr>\<rparr>, snd (confirm_order shop ''o1''))"
    using e by (simp add: prod_eq_iff)
  have h2: "fresh_order_ids ascii_lower (snd (confirm_order shop ''o1'')) later_requests"
    by code_simp
  show ?thesis
    using confirm_at_most_once [OF h1 h2] e h2 by auto
qed

subsection \<open>Listing the catalog\<close>







end
